theory Spec2Isabelle
  imports Complex_Main "HOL-Library.AList" "HOL-Library.Sublist"
begin

section \<open>The coordinator's executor and scan pipeline\<close>

text \<open>
  A shallow embedding of \<^verbatim>\<open>executor.py\<close> (price resolution, leverage table, position
  sizing, on-chain dispatch stub, intent pipeline) and of the scan part of
  \<^verbatim>\<open>main_before_trade_intent.py\<close> (mock scorer, risk veto, ranker, tick).

  Python's \<^verbatim>\<open>float\<close> is modelled by \<^typ>\<open>real\<close>: the arithmetic is the exact one, without
  rounding, infinities or NaN. Exceptions are values of the type \<open>error\<close>, carrying the
  message of the source; a function that can raise returns \<open>error + 'a\<close>.
\<close>

subsection \<open>Exceptions\<close>

datatype error =
    ValueError string
  | RuntimeError string
  | KeyError string
  | HTTPError
  | DBError

subsection \<open>Configuration and leverage table\<close>

text \<open>
  The four module constants \<^verbatim>\<open>MAX_LEVERAGE_*\<close> are read from the process environment when the
  module is loaded; they are the fields of a configuration value, and \<open>default_config\<close> holds
  the defaults of the four \<^verbatim>\<open>os.getenv\<close> calls.
\<close>

record config =
  MAX_LEVERAGE_FX :: real
  MAX_LEVERAGE_CRYPTO :: real
  MAX_LEVERAGE_METAL :: real
  MAX_LEVERAGE_INDEX :: real

definition default_config :: config where
  "default_config =
     \<lparr>MAX_LEVERAGE_FX = 40, MAX_LEVERAGE_CRYPTO = 40,
      MAX_LEVERAGE_METAL = 40, MAX_LEVERAGE_INDEX = 20\<rparr>"

text \<open>\<^verbatim>\<open>_asset_class\<close>: the class is a string, as in the source.\<close>

definition asset_class :: "string \<Rightarrow> string" where
  "asset_class symbol =
     (if symbol \<in> set [''BTCUSD'', ''ETHUSD''] then ''CRYPTO''
      else if symbol \<in> set [''XAUUSD'', ''XAGUSD'', ''LIGHTCMDUSD''] then ''METAL''
      else if symbol = ''DOLLARIDXUSD'' then ''INDEX''
      else ''FX'')"

text \<open>\<^verbatim>\<open>_max_leverage_for\<close>\<close>

definition max_leverage_for :: "config \<Rightarrow> string \<Rightarrow> real" where
  "max_leverage_for cfg symbol =
     (let cls = asset_class symbol in
      if cls = ''CRYPTO'' then MAX_LEVERAGE_CRYPTO cfg
      else if cls = ''METAL'' then MAX_LEVERAGE_METAL cfg
      else if cls = ''INDEX'' then MAX_LEVERAGE_INDEX cfg
      else MAX_LEVERAGE_FX cfg)"

subsection \<open>Position sizing\<close>

text \<open>The dictionary returned by \<^verbatim>\<open>compute_position_size\<close>, one field per key.\<close>

record size_info =
  size_equity :: real
  size_risk_amount :: real
  size_max_leverage :: real
  size_notional :: real
  size_qty :: real
  size_price :: real

definition InvalidSizing :: error where
  "InvalidSizing = ValueError ''invalid notional/price for size calc''"

definition compute_position_size ::
  "config \<Rightarrow> real \<Rightarrow> real \<Rightarrow> real \<Rightarrow> string \<Rightarrow> error + size_info" where
  "compute_position_size cfg equity risk_pct price symbol =
     (let max_lev = max_leverage_for cfg symbol;
          risk_amount = equity * risk_pct;
          notional = risk_amount * max_lev
      in if notional \<le> 0 \<or> price \<le> 0 then Inl InvalidSizing
         else
           (let qty = notional / price in
            Inr \<lparr>size_equity = equity, size_risk_amount = risk_amount,
                 size_max_leverage = max_lev, size_notional = notional,
                 size_qty = qty, size_price = price\<rparr>))"

subsection \<open>Price resolution\<close>

text \<open>\<^verbatim>\<open>PYTH_FEEDS\<close>: the registry of feed identifiers, a dictionary with sixteen keys.\<close>

definition PYTH_FEEDS :: "(string \<times> string) list" where
  "PYTH_FEEDS =
    [(''EURUSD'', ''0xa995d00bb36a63cef7fd2c287dc105fc8f3d93779f062f09551b0af3e81ec30b''),
     (''GBPUSD'', ''0x84c2dde9633d93d1bcad84e7dc41c9d56578b7ec52fabedc1f335d673df0a7c1''),
     (''AUDUSD'', ''0x67a6f93030420c1c9e3fe37c1ab6b77966af82f995944a9fefce357a22854a80''),
     (''USDJPY'', ''0xef2c98c804ba503c6a707e38be4dfbb16683775f195b091252bf24693042fd52''),
     (''USDCHF'', ''0x0b1e3297e69f162877b577b0d6a47a0d63b2392bc8499e6540da4187a63e28f8''),
     (''USDCAD'', ''0x3112b03a41c910ed446852aacf67118cb1bec67b2cd0b9a214c58cc0eaa2ecca''),
     (''EURJPY'', ''0xd8c874fa511b9838d094109f996890642421e462c3b29501a2560cecf82c2eb4''),
     (''AUDJPY'', ''0x8dbbb66dff44114f0bfc34a1d19f0fe6fc3906dcc72f7668d3ea936e1d6544ce''),
     (''CADJPY'', ''0x9e19cbf0b363b3ce3fa8533e171f449f605a7ca5bb272a9b80df4264591c4cbb''),
     (''GBPJPY'', ''0xcfa65905787703c692c3cac2b8a009a1db51ce68b54f5b206ce6a55bfa2c3cd1''),
     (''DOLLARIDXUSD'', ''0x710afe0041a07156bfd71971160c78a326bf8121403e0d4e140d06bea0353b7f''),
     (''XAGUSD'', ''0xf2fb02c32b055c805e7238d628e5e9dadef274376114eb1f012337cabe93871e''),
     (''XAUUSD'', ''0x765d2ba906dbc32ca17cc11f5310a89e9ee1f6420508c63861f2f8ba4ee34bb2''),
     (''LIGHTCMDUSD'', ''0x925ca92ff005ae943c158e3563f59698ce7e75c5a8c8dd43303a0a154887b3e6''),
     (''BTCUSD'', ''0xe62df6c8b4a85fe1a67db44dc12de5db330f7ac66b72dc658afedf0f4a415b43''),
     (''ETHUSD'', ''0xff61491a931112ddf1bd8147cd1b641375f79f5825126d665480874634fd0ace'')]"

text \<open>
  The answer of the Hermes endpoint to one request. \<^verbatim>\<open>raise_for_status\<close>, a timeout and a
  transport failure all raise an \<^verbatim>\<open>httpx\<close> exception: \<open>HttpFailure\<close>. Otherwise the body is a
  JSON list of items. Of an item the code reads \<^verbatim>\<open>item.get("price", {})\<close> and, of that object,
  the keys \<^verbatim>\<open>"price"\<close> (the mantissa) and \<^verbatim>\<open>"expo"\<close> (the exponent); an absent key is
  \<open>None\<close>. An item without the key \<^verbatim>\<open>"price"\<close> is \<open>Item None None\<close>, the empty dictionary
  that \<^verbatim>\<open>get\<close> puts in its place. Mantissa and exponent are integers, as Pyth sends them.
\<close>

datatype item = Item (item_price: "int option") (item_expo: "int option")

datatype hermes_response = HttpFailure | Json "item list"

definition UnknownSymbol :: "string \<Rightarrow> error" where
  "UnknownSymbol symbol = ValueError (''no pyth feed configured for symbol='' @ symbol)"

definition FeedNotFound :: "string \<Rightarrow> error" where
  "FeedNotFound symbol = RuntimeError (''pyth price not found for symbol='' @ symbol)"

definition FeedMissingPrice :: "string \<Rightarrow> error" where
  "FeedMissingPrice symbol =
     RuntimeError (''pyth price missing '' @ [CHR 0x27] @ ''price'' @ [CHR 0x27] @
                   '' field for '' @ symbol)"


text \<open>
  \<^verbatim>\<open>fetch_pyth_price\<close>. The first argument is the Hermes service: the response it gives to a
  request for a feed identifier. \<^verbatim>\<open>if not feed_id\<close> holds for a missing key and for an empty
  identifier; \<^verbatim>\<open>if not data\<close> holds for the empty list.
\<close>

definition fetch_pyth_price :: "(string \<Rightarrow> hermes_response) \<Rightarrow> string \<Rightarrow> error + real" where
  "fetch_pyth_price hermes symbol =
     (case map_of PYTH_FEEDS symbol of
        None \<Rightarrow> Inl (UnknownSymbol symbol)
      | Some feed_id \<Rightarrow>
          if feed_id = [] then Inl (UnknownSymbol symbol)
          else
            (case hermes feed_id of
               HttpFailure \<Rightarrow> Inl HTTPError
             | Json data \<Rightarrow>
                 (case data of
                    [] \<Rightarrow> Inl (FeedNotFound symbol)
                  | it # _ \<Rightarrow>
                      (let px = item_price it;
                           expo = (case item_expo it of None \<Rightarrow> 0 | Some x \<Rightarrow> x)
                       in case px of
                            None \<Rightarrow> Inl (FeedMissingPrice symbol)
                          | Some m \<Rightarrow> Inr (real_of_int m * 10 powi expo)))))"

subsection \<open>On-chain dispatch (stub)\<close>

text \<open>
  The settlement configuration: three environment variables, whether the \<^verbatim>\<open>web3\<close> package
  could be imported, and the error, if any, with which \<^verbatim>\<open>w3.eth.account.from_key\<close> rejects
  the relayer key.
\<close>

record settlement =
  ARBITRUM_RPC_URL :: "string option"
  PONTE_ADDRESS :: "string option"
  RELAYER_PK :: "string option"
  Web3 :: bool
  from_key :: "error option"

text \<open>A variable of the environment counts as set when it is present and not empty.\<close>

definition truthy :: "string option \<Rightarrow> bool" where
  "truthy x = (case x of None \<Rightarrow> False | Some s \<Rightarrow> s \<noteq> [])"

text \<open>\<^verbatim>\<open>_get_web3\<close>: whether a client is returned (\<open>False\<close> is the source's \<^verbatim>\<open>None\<close>).\<close>

definition get_web3 :: "settlement \<Rightarrow> bool" where
  "get_web3 st =
     (if \<not> (truthy (ARBITRUM_RPC_URL st) \<and> truthy (RELAYER_PK st) \<and> truthy (PONTE_ADDRESS st))
      then False
      else if \<not> Web3 st then False
      else True)"

text \<open>
  \<^verbatim>\<open>execute_onchain_trade\<close>. The argument \<open>uuid_hex\<close> is the value of \<^verbatim>\<open>uuid.uuid4().hex\<close>
  of this call.
\<close>

definition execute_onchain_trade ::
  "settlement \<Rightarrow> string \<Rightarrow> string \<Rightarrow> string \<Rightarrow> size_info \<Rightarrow> error + string" where
  "execute_onchain_trade st uuid_hex symbol direction sz =
     (if \<not> get_web3 st then Inr (''0xSTUB-'' @ uuid_hex)
      else
        (case from_key st of
           Some err \<Rightarrow> Inl err
         | None \<Rightarrow> Inr (''0xSTUB-'' @ uuid_hex)))"

text \<open>
  The shape of a real settlement confirmation, the transaction hash that the commented-out
  relay code would return (\<^verbatim>\<open>send_raw_transaction(...).hex()\<close>): \<^verbatim>\<open>0x\<close> and hexadecimal
  digits.
\<close>

definition hex_digit :: "char \<Rightarrow> bool" where
  "hex_digit c \<longleftrightarrow> c \<in> set ''0123456789abcdefABCDEF''"

definition tx_hash_shape :: "string \<Rightarrow> bool" where
  "tx_hash_shape s \<longleftrightarrow> take 2 s = ''0x'' \<and> list_all hex_digit (drop 2 s)"

subsection \<open>The intent pipeline\<close>

text \<open>
  The intent is a dictionary; the four keys the code reads are the fields, an absent key is
  \<open>None\<close>. \<^verbatim>\<open>risk_pct\<close> is a number (\<^verbatim>\<open>float\<close> of it does not fail).
\<close>

record intent =
  intent_user_id :: "string option"
  intent_symbol :: "string option"
  intent_risk_pct :: "real option"
  intent_direction :: "string option"

text \<open>
  What the pipeline reads from outside: environment variables, the leverage and settlement
  configuration, the Hermes service, the outcome of the two database transactions (the
  error raised, or the identifier of the stored signal) and the two random identifiers.
\<close>

record env =
  TEST_USER_WALLET :: "string option"
  RELAYER_ADDRESS :: "string option"
  leverage :: config
  settle :: settlement
  hermes :: "string \<Rightarrow> hermes_response"
  db_ensure_test_user :: "error option"
  db_signal :: "error + string"
  uuid_tx :: string
  uuid_intent :: string

text \<open>The calls the pipeline makes, in the order it makes them: the trace of a run.\<close>

datatype call =
    EnsureTestUser string string
  | GetOrCreateSignal string
  | GetEquityForUser string
  | FetchPythPrice string
  | ComputePositionSize real real real string
  | ExecuteOnchainTrade string string size_info

text \<open>The dictionary returned by \<^verbatim>\<open>process_trade_intent\<close>.\<close>

record response =
  resp_intent_id :: string
  resp_status :: string
  resp_message :: string
  resp_symbol :: string
  resp_user_id :: string
  resp_risk_pct :: real
  resp_equity :: real
  resp_price :: real
  resp_size :: size_info
  resp_tx_hash :: string
  resp_signal_id :: string

text \<open>\<^verbatim>\<open>get_equity_for_user\<close>: the placeholder of the source.\<close>

definition get_equity_for_user :: "string \<Rightarrow> real" where
  "get_equity_for_user user_id = 10000"

text \<open>\<^verbatim>\<open>x or d\<close> on an optional string.\<close>

definition or_else :: "string option \<Rightarrow> string \<Rightarrow> string" where
  "or_else x d = (case x of None \<Rightarrow> d | Some s \<Rightarrow> if s = [] then d else s)"

text \<open>
  \<^verbatim>\<open>process_trade_intent\<close>: the trace of the calls made and the result, an exception or the
  response. Each step runs once, after the one before it has returned; an exception ends the
  run at the step that raised it.
\<close>

definition process_trade_intent :: "env \<Rightarrow> intent \<Rightarrow> call list \<times> (error + response)" where
  "process_trade_intent ev it =
     (let user_id = or_else (intent_user_id it) ''TEST_USER_001'' in
      (case intent_symbol it of
         None \<Rightarrow> ([], Inl (KeyError ''symbol''))
       | Some symbol \<Rightarrow>
      (case intent_risk_pct it of
         None \<Rightarrow> ([], Inl (KeyError ''risk_pct''))
       | Some risk_pct \<Rightarrow>
      (let test_wallet = or_else (TEST_USER_WALLET ev) (or_else (RELAYER_ADDRESS ev) []) in
      (if test_wallet = []
       then ([], Inl (RuntimeError ''TEST_USER_WALLET or RELAYER_ADDRESS not configured''))
       else
      (let t1 = [EnsureTestUser user_id test_wallet] in
      (case db_ensure_test_user ev of
         Some err \<Rightarrow> (t1, Inl err)
       | None \<Rightarrow>
      (let t2 = t1 @ [GetOrCreateSignal symbol] in
      (case db_signal ev of
         Inl err \<Rightarrow> (t2, Inl err)
       | Inr signal_id \<Rightarrow>
      (let t3 = t2 @ [GetEquityForUser user_id];
           equity = get_equity_for_user user_id;
           t4 = t3 @ [FetchPythPrice symbol] in
      (case fetch_pyth_price (hermes ev) symbol of
         Inl err \<Rightarrow> (t4, Inl err)
       | Inr price \<Rightarrow>
      (let t5 = t4 @ [ComputePositionSize equity risk_pct price symbol] in
      (case compute_position_size (leverage ev) equity risk_pct price symbol of
         Inl err \<Rightarrow> (t5, Inl err)
       | Inr size_info \<Rightarrow>
      (case intent_direction it of
         None \<Rightarrow> (t5, Inl (KeyError ''direction''))
       | Some direction \<Rightarrow>
      (let t6 = t5 @ [ExecuteOnchainTrade symbol direction size_info] in
      (case execute_onchain_trade (settle ev) (uuid_tx ev) symbol direction size_info of
         Inl err \<Rightarrow> (t6, Inl err)
       | Inr tx_hash \<Rightarrow>
           (t6, Inr \<lparr>resp_intent_id = uuid_intent ev,
                     resp_status = ''RECEIVED'',
                     resp_message = ''intent accepted'',
                     resp_symbol = symbol,
                     resp_user_id = user_id,
                     resp_risk_pct = risk_pct,
                     resp_equity = size_equity size_info,
                     resp_price = size_price size_info,
                     resp_size = size_info,
                     resp_tx_hash = tx_hash,
                     resp_signal_id = signal_id\<rparr>)))))))))))))))))"

text \<open>Which step a call belongs to.\<close>

datatype step = StepTenant | StepSignal | StepEquity | StepPrice | StepSize | StepDispatch

fun step_of :: "call \<Rightarrow> step" where
  "step_of (EnsureTestUser _ _) = StepTenant"
| "step_of (GetOrCreateSignal _) = StepSignal"
| "step_of (GetEquityForUser _) = StepEquity"
| "step_of (FetchPythPrice _) = StepPrice"
| "step_of (ComputePositionSize _ _ _ _) = StepSize"
| "step_of (ExecuteOnchainTrade _ _ _) = StepDispatch"

definition all_steps :: "step list" where
  "all_steps = [StepTenant, StepSignal, StepEquity, StepPrice, StepSize, StepDispatch]"

subsection \<open>The scan pipeline\<close>

text \<open>A scored candidate: the dictionary with the keys \<^verbatim>\<open>p\<close>, \<^verbatim>\<open>e\<close>, \<^verbatim>\<open>r\<close>, \<^verbatim>\<open>v\<close>.\<close>

record signal =
  sig_p :: real
  sig_e :: real
  sig_r :: real
  sig_v :: real



text \<open>\<^verbatim>\<open>d.get(k, dflt)\<close> on a dictionary that is only read: a map.\<close>

definition dict_get :: "('k \<rightharpoonup> 'v) \<Rightarrow> 'k \<Rightarrow> 'v \<Rightarrow> 'v" where
  "dict_get d k dflt = (case d k of None \<Rightarrow> dflt | Some v \<Rightarrow> v)"


text \<open>
  Python's \<^verbatim>\<open>x % y\<close> on floats, for \<open>y > 0\<close>: the remainder of the floored division, in
  \<open>[0, y)\<close>.
\<close>

definition py_mod :: "real \<Rightarrow> real \<Rightarrow> real" where
  "py_mod x y = x - y * of_int \<lfloor>x / y\<rfloor>"

text \<open>The body of the loop of \<^verbatim>\<open>mock_coscienza_score\<close>: the candidate of one price.\<close>

definition score_price :: "real \<Rightarrow> signal" where
  "score_price p =
     (let score = py_mod p 7 / 7 in
      \<lparr>sig_p = min 0.99 (0.50 + score * 0.40),
       sig_e = min 0.99 (0.60 + score * 0.30),
       sig_r = 0.9,
       sig_v = 0.9\<rparr>)"

text \<open>
  \<^verbatim>\<open>mock_coscienza_score\<close>. The result is a dictionary in insertion order, which
  \<^verbatim>\<open>sorted\<close> reads later: an association list, where \<^verbatim>\<open>out[s] = ...\<close> replaces the value of
  a key already present in place and appends a new key at the end.
\<close>

definition mock_coscienza_score ::
  "string list \<Rightarrow> (string \<rightharpoonup> real) \<Rightarrow> (string \<times> signal) list" where
  "mock_coscienza_score symbols prices =
     fold (\<lambda>s out. AList.update s (score_price (dict_get prices s 1)) out) symbols []"










subsection \<open>Sample inputs\<close>

text \<open>Hermes services: one that knows BTCUSD at 65000, and faulty ones.\<close>

definition hermes_btc :: "string \<Rightarrow> hermes_response" where
  "hermes_btc feed_id =
     (if feed_id = ''0xe62df6c8b4a85fe1a67db44dc12de5db330f7ac66b72dc658afedf0f4a415b43''
      then Json [Item (Some 6500000000000) (Some (- 8))] else Json [])"

definition hermes_empty :: "string \<Rightarrow> hermes_response" where
  "hermes_empty feed_id = Json []"




definition hermes_zero :: "string \<Rightarrow> hermes_response" where
  "hermes_zero feed_id = Json [Item (Some 0) (Some (- 8))]"

text \<open>A run of the intent pipeline without settlement configuration.\<close>

definition settlement_unconfigured :: settlement where
  "settlement_unconfigured =
     \<lparr>ARBITRUM_RPC_URL = None, PONTE_ADDRESS = None, RELAYER_PK = None,
      Web3 = False, from_key = None\<rparr>"

definition settlement_bad_key :: settlement where
  "settlement_bad_key =
     \<lparr>ARBITRUM_RPC_URL = Some ''https://rpc'', PONTE_ADDRESS = Some ''0xPONTE'',
      RELAYER_PK = Some ''not-a-key'', Web3 = True,
      from_key = Some (ValueError ''invalid private key'')\<rparr>"

definition sample_env :: env where
  "sample_env =
     \<lparr>TEST_USER_WALLET = Some ''0xLAB'', RELAYER_ADDRESS = None,
      leverage = default_config, settle = settlement_unconfigured,
      hermes = hermes_btc, db_ensure_test_user = None, db_signal = Inr ''sig-1'',
      uuid_tx = ''00112233445566778899aabbccddeeff'', uuid_intent = ''intent-1''\<rparr>"

definition sample_intent :: intent where
  "sample_intent =
     \<lparr>intent_user_id = None, intent_symbol = Some ''BTCUSD'',
      intent_risk_pct = Some 0.008, intent_direction = Some ''LONG''\<rparr>"

definition sample_size :: size_info where
  "sample_size =
     \<lparr>size_equity = 10000, size_risk_amount = 80, size_max_leverage = 40,
      size_notional = 3200, size_qty = 3200 / 65000, size_price = 65000\<rparr>"






definition sample_prices :: "string \<rightharpoonup> real" where
  "sample_prices = map_of [(''USDJPY'', 150)]"

section \<open>Properties\<close>

subsection \<open>Leverage table\<close>

lemma max_leverage_for_default_pos: "0 < max_leverage_for default_config symbol"
  by (simp add: max_leverage_for_def default_config_def Let_def)

text \<open>
  C9. Classification is a total function with one class for every symbol, decided in the
  order crypto set, metal set, index symbol, and \<open>FX\<close> for everything else; the maximum
  leverage of a symbol is the ceiling configured for its class, and the default ceilings are
  40 for \<open>FX\<close>, \<open>CRYPTO\<close> and \<open>METAL\<close> and 20 for \<open>INDEX\<close>.
\<close>

theorem classification_total:
  "asset_class symbol =
     (if symbol = ''BTCUSD'' \<or> symbol = ''ETHUSD'' then ''CRYPTO''
      else if symbol = ''XAUUSD'' \<or> symbol = ''XAGUSD'' \<or> symbol = ''LIGHTCMDUSD'' then ''METAL''
      else if symbol = ''DOLLARIDXUSD'' then ''INDEX''
      else ''FX'')
   \<and> asset_class symbol \<in> {''CRYPTO'', ''METAL'', ''INDEX'', ''FX''}
   \<and> (asset_class symbol = ''CRYPTO'' \<longrightarrow> max_leverage_for cfg symbol = MAX_LEVERAGE_CRYPTO cfg)
   \<and> (asset_class symbol = ''METAL'' \<longrightarrow> max_leverage_for cfg symbol = MAX_LEVERAGE_METAL cfg)
   \<and> (asset_class symbol = ''INDEX'' \<longrightarrow> max_leverage_for cfg symbol = MAX_LEVERAGE_INDEX cfg)
   \<and> (asset_class symbol = ''FX'' \<longrightarrow> max_leverage_for cfg symbol = MAX_LEVERAGE_FX cfg)
   \<and> MAX_LEVERAGE_FX default_config = 40 \<and> MAX_LEVERAGE_CRYPTO default_config = 40
   \<and> MAX_LEVERAGE_METAL default_config = 40 \<and> MAX_LEVERAGE_INDEX default_config = 20"
  by (simp add: asset_class_def max_leverage_for_def default_config_def Let_def)

theorem classification_total_witness:
  "asset_class ''DOLLARIDXUSD'' = ''INDEX''
   \<and> max_leverage_for default_config ''DOLLARIDXUSD'' = 20
   \<and> asset_class ''BTCUSD'' = ''CRYPTO''
   \<and> max_leverage_for default_config ''BTCUSD'' = 40
   \<and> asset_class ''XAGUSD'' = ''METAL''
   \<and> max_leverage_for default_config ''XAGUSD'' = 40
   \<and> asset_class ''NZDUSD'' = ''FX''
   \<and> max_leverage_for default_config ''NZDUSD'' = 40"
  using classification_total [of "''DOLLARIDXUSD''" default_config]
        classification_total [of "''BTCUSD''" default_config]
        classification_total [of "''XAGUSD''" default_config]
        classification_total [of "''NZDUSD''" default_config]
  by simp

subsection \<open>Position sizing\<close>






subsection \<open>Price resolution\<close>





subsection \<open>Dispatch and the intent pipeline\<close>

lemma stub_not_tx_hash: "\<not> tx_hash_shape (''0xSTUB-'' @ u)"
  by (simp add: tx_hash_shape_def hex_digit_def)

lemma unconfigured_no_web3:
  "\<not> truthy (ARBITRUM_RPC_URL st) \<or> \<not> truthy (RELAYER_PK st)
     \<or> \<not> truthy (PONTE_ADDRESS st) \<or> \<not> Web3 st \<Longrightarrow> \<not> get_web3 st"
  by (auto simp add: get_web3_def)

lemma run_steps_prefix: "prefix (map step_of (fst (process_trade_intent ev it))) all_steps"
  by (simp add: process_trade_intent_def all_steps_def Let_def
        split: option.splits sum.splits)

lemma run_success_all_steps:
  "snd (process_trade_intent ev it) = Inr resp \<Longrightarrow>
     map step_of (fst (process_trade_intent ev it)) = all_steps"
  by (auto simp add: process_trade_intent_def all_steps_def Let_def
        split: option.splits sum.splits if_splits)

lemma run_unconfigured:
  "\<not> get_web3 (settle ev) \<Longrightarrow>
   StepDispatch \<in> set (map step_of (fst (process_trade_intent ev it))) \<Longrightarrow>
   \<exists>resp. snd (process_trade_intent ev it) = Inr resp
      \<and> resp_tx_hash resp = ''0xSTUB-'' @ uuid_tx ev"
  by (auto simp add: process_trade_intent_def execute_onchain_trade_def Let_def
        split: option.splits sum.splits if_splits)

lemma run_reaches_dispatch:
  "intent_symbol it = Some symbol \<Longrightarrow> intent_risk_pct it = Some risk_pct \<Longrightarrow>
   intent_direction it = Some direction \<Longrightarrow>
   truthy (TEST_USER_WALLET ev) \<or> truthy (RELAYER_ADDRESS ev) \<Longrightarrow>
   db_ensure_test_user ev = None \<Longrightarrow> db_signal ev = Inr signal_id \<Longrightarrow>
   fetch_pyth_price (hermes ev) symbol = Inr price \<Longrightarrow>
   compute_position_size (leverage ev)
              (get_equity_for_user (or_else (intent_user_id it) ''TEST_USER_001''))
              risk_pct price symbol = Inr sz \<Longrightarrow>
   StepDispatch \<in> set (map step_of (fst (process_trade_intent ev it)))"
  by (auto simp add: process_trade_intent_def Let_def or_else_def truthy_def
        get_equity_for_user_def split: option.splits sum.splits if_splits)

text \<open>The run of the sample intent: every step is made and the response is returned.\<close>

lemma sample_run:
  "process_trade_intent sample_env sample_intent =
     ([EnsureTestUser ''TEST_USER_001'' ''0xLAB'', GetOrCreateSignal ''BTCUSD'',
       GetEquityForUser ''TEST_USER_001'', FetchPythPrice ''BTCUSD'',
       ComputePositionSize 10000 0.008 65000 ''BTCUSD'',
       ExecuteOnchainTrade ''BTCUSD'' ''LONG'' sample_size],
      Inr \<lparr>resp_intent_id = ''intent-1'', resp_status = ''RECEIVED'',
           resp_message = ''intent accepted'', resp_symbol = ''BTCUSD'',
           resp_user_id = ''TEST_USER_001'', resp_risk_pct = 0.008,
           resp_equity = 10000, resp_price = 65000, resp_size = sample_size,
           resp_tx_hash = ''0xSTUB-00112233445566778899aabbccddeeff'',
           resp_signal_id = ''sig-1''\<rparr>)"
  by (simp add: process_trade_intent_def sample_env_def sample_intent_def or_else_def
        get_equity_for_user_def Let_def
        fetch_pyth_price_def PYTH_FEEDS_def hermes_btc_def power_int_minus
        compute_position_size_def max_leverage_for_def asset_class_def
        default_config_def sample_size_def
        execute_onchain_trade_def get_web3_def settlement_unconfigured_def truthy_def)

text \<open>
  C4. When the RPC URL, the relayer key or the contract address is missing, or web3 is not
  available, the dispatch returns the handle \<open>0xSTUB-\<close> followed by a fresh identifier, which
  is not of the shape of a transaction hash; a run of the pipeline that reaches the dispatch
  step returns its response with that handle, and it reaches the step whenever the intent
  is complete, a wallet is set, the database calls succeed and price and size are computed.
  The completed run is the state \<open>DISPATCHED\<close> of the design (the field \<^verbatim>\<open>status\<close> of the
  response reads \<^verbatim>\<open>RECEIVED\<close>), an exception is the state \<open>FAILED\<close>.
\<close>

theorem unconfigured_dispatch_sentinel:
  assumes "\<not> truthy (ARBITRUM_RPC_URL (settle ev)) \<or> \<not> truthy (RELAYER_PK (settle ev))
           \<or> \<not> truthy (PONTE_ADDRESS (settle ev)) \<or> \<not> Web3 (settle ev)"
  shows "execute_onchain_trade (settle ev) u symbol direction sz = Inr (''0xSTUB-'' @ u)
     \<and> \<not> tx_hash_shape (''0xSTUB-'' @ u)
     \<and> (StepDispatch \<in> set (map step_of (fst (process_trade_intent ev it))) \<longrightarrow>
          (\<exists>resp. snd (process_trade_intent ev it) = Inr resp
                \<and> resp_tx_hash resp = ''0xSTUB-'' @ uuid_tx ev))
     \<and> (\<forall>sym risk_pct dir signal_id price sz'.
          intent_symbol it = Some sym \<and> intent_risk_pct it = Some risk_pct
          \<and> intent_direction it = Some dir
          \<and> (truthy (TEST_USER_WALLET ev) \<or> truthy (RELAYER_ADDRESS ev))
          \<and> db_ensure_test_user ev = None \<and> db_signal ev = Inr signal_id
          \<and> fetch_pyth_price (hermes ev) sym = Inr price
          \<and> compute_position_size (leverage ev)
              (get_equity_for_user (or_else (intent_user_id it) ''TEST_USER_001''))
              risk_pct price sym = Inr sz'
          \<longrightarrow> (\<exists>resp. snd (process_trade_intent ev it) = Inr resp
                \<and> resp_tx_hash resp = ''0xSTUB-'' @ uuid_tx ev))"
proof -
  have nw: "\<not> get_web3 (settle ev)"
    using assms by (rule unconfigured_no_web3)
  have a: "execute_onchain_trade (settle ev) u symbol direction sz = Inr (''0xSTUB-'' @ u)"
    using nw by (simp add: execute_onchain_trade_def)
  have b: "\<not> tx_hash_shape (''0xSTUB-'' @ u)"
    by (rule stub_not_tx_hash)
  have c: "StepDispatch \<in> set (map step_of (fst (process_trade_intent ev it))) \<Longrightarrow>
          (\<exists>resp. snd (process_trade_intent ev it) = Inr resp
                \<and> resp_tx_hash resp = ''0xSTUB-'' @ uuid_tx ev)"
    using nw by (rule run_unconfigured)
  show ?thesis
    using a b c run_reaches_dispatch [of it _ _ _ ev] by blast
qed

theorem unconfigured_dispatch_sentinel_witness:
  "\<not> Web3 (settle sample_env)
   \<and> process_trade_intent sample_env sample_intent =
     ([EnsureTestUser ''TEST_USER_001'' ''0xLAB'', GetOrCreateSignal ''BTCUSD'',
       GetEquityForUser ''TEST_USER_001'', FetchPythPrice ''BTCUSD'',
       ComputePositionSize 10000 0.008 65000 ''BTCUSD'',
       ExecuteOnchainTrade ''BTCUSD'' ''LONG'' sample_size],
      Inr \<lparr>resp_intent_id = ''intent-1'', resp_status = ''RECEIVED'',
           resp_message = ''intent accepted'', resp_symbol = ''BTCUSD'',
           resp_user_id = ''TEST_USER_001'', resp_risk_pct = 0.008,
           resp_equity = 10000, resp_price = 65000, resp_size = sample_size,
           resp_tx_hash = ''0xSTUB-00112233445566778899aabbccddeeff'',
           resp_signal_id = ''sig-1''\<rparr>)
   \<and> (\<exists>resp. snd (process_trade_intent sample_env sample_intent) = Inr resp
          \<and> resp_tx_hash resp = ''0xSTUB-'' @ uuid_tx sample_env)
   \<and> \<not> tx_hash_shape ''0xSTUB-00112233445566778899aabbccddeeff''"
proof -
  have h: "\<not> truthy (ARBITRUM_RPC_URL (settle sample_env))
           \<or> \<not> truthy (RELAYER_PK (settle sample_env))
           \<or> \<not> truthy (PONTE_ADDRESS (settle sample_env)) \<or> \<not> Web3 (settle sample_env)"
    by (simp add: sample_env_def settlement_unconfigured_def)
  have d: "StepDispatch \<in> set (map step_of (fst (process_trade_intent sample_env sample_intent)))"
    by (simp add: sample_run)
  show ?thesis
    using unconfigured_dispatch_sentinel [OF h, of "''00112233445566778899aabbccddeeff''"
            "''BTCUSD''" "''LONG''" sample_size sample_intent] d
    by (simp add: sample_run) (simp add: sample_env_def settlement_unconfigured_def)
qed

text \<open>
  C8. The steps run once each and in order; the response is returned only after all of
  them; a step that raises ends the run with its exception, and no later step is made. When
  price resolution raises, the run ends with that exception, and neither the sizing nor the
  dispatch is called.
\<close>

theorem failure_aborts_remaining_steps:
  "prefix (map step_of (fst (process_trade_intent ev it))) all_steps
   \<and> (\<forall>resp. snd (process_trade_intent ev it) = Inr resp \<longrightarrow>
        map step_of (fst (process_trade_intent ev it)) = all_steps)
   \<and> (\<forall>err. db_ensure_test_user ev = Some err \<longrightarrow>
        isl (snd (process_trade_intent ev it))
        \<and> set (map step_of (fst (process_trade_intent ev it))) \<subseteq> {StepTenant}
        \<and> (StepTenant \<in> set (map step_of (fst (process_trade_intent ev it))) \<longrightarrow>
             snd (process_trade_intent ev it) = Inl err))
   \<and> (\<forall>err. db_signal ev = Inl err \<longrightarrow>
        isl (snd (process_trade_intent ev it))
        \<and> set (map step_of (fst (process_trade_intent ev it))) \<subseteq> {StepTenant, StepSignal}
        \<and> (StepSignal \<in> set (map step_of (fst (process_trade_intent ev it))) \<longrightarrow>
             snd (process_trade_intent ev it) = Inl err))
   \<and> (\<forall>symbol err. intent_symbol it = Some symbol
          \<and> fetch_pyth_price (hermes ev) symbol = Inl err \<longrightarrow>
        isl (snd (process_trade_intent ev it))
        \<and> StepSize \<notin> set (map step_of (fst (process_trade_intent ev it)))
        \<and> StepDispatch \<notin> set (map step_of (fst (process_trade_intent ev it)))
        \<and> (StepPrice \<in> set (map step_of (fst (process_trade_intent ev it))) \<longrightarrow>
             snd (process_trade_intent ev it) = Inl err))
   \<and> (\<forall>symbol risk_pct price err. intent_symbol it = Some symbol
          \<and> intent_risk_pct it = Some risk_pct
          \<and> fetch_pyth_price (hermes ev) symbol = Inr price
          \<and> compute_position_size (leverage ev)
              (get_equity_for_user (or_else (intent_user_id it) ''TEST_USER_001''))
              risk_pct price symbol = Inl err \<longrightarrow>
        isl (snd (process_trade_intent ev it))
        \<and> StepDispatch \<notin> set (map step_of (fst (process_trade_intent ev it)))
        \<and> (StepSize \<in> set (map step_of (fst (process_trade_intent ev it))) \<longrightarrow>
             snd (process_trade_intent ev it) = Inl err))
   \<and> (\<forall>err. snd (process_trade_intent ev it) = Inl err
          \<and> StepDispatch \<in> set (map step_of (fst (process_trade_intent ev it))) \<longrightarrow>
        from_key (settle ev) = Some err)"
proof (intro conjI allI impI)
  show "prefix (map step_of (fst (process_trade_intent ev it))) all_steps"
    by (rule run_steps_prefix)
next
  fix resp
  assume "snd (process_trade_intent ev it) = Inr resp"
  then show "map step_of (fst (process_trade_intent ev it)) = all_steps"
    by (rule run_success_all_steps)
qed (auto simp add: process_trade_intent_def Let_def get_equity_for_user_def
       execute_onchain_trade_def split: option.splits sum.splits if_splits)

lemma run_price_fails:
  "process_trade_intent (sample_env\<lparr>hermes := hermes_empty\<rparr>) sample_intent =
     ([EnsureTestUser ''TEST_USER_001'' ''0xLAB'', GetOrCreateSignal ''BTCUSD'',
       GetEquityForUser ''TEST_USER_001'', FetchPythPrice ''BTCUSD''],
      Inl (FeedNotFound ''BTCUSD''))"
  by (simp add: process_trade_intent_def sample_env_def sample_intent_def or_else_def
        get_equity_for_user_def Let_def fetch_pyth_price_def PYTH_FEEDS_def hermes_empty_def)

lemma run_tenant_fails:
  "process_trade_intent (sample_env\<lparr>db_ensure_test_user := Some DBError\<rparr>) sample_intent =
     ([EnsureTestUser ''TEST_USER_001'' ''0xLAB''], Inl DBError)"
  by (simp add: process_trade_intent_def sample_env_def sample_intent_def or_else_def Let_def)

lemma run_signal_fails:
  "process_trade_intent (sample_env\<lparr>db_signal := Inl DBError\<rparr>) sample_intent =
     ([EnsureTestUser ''TEST_USER_001'' ''0xLAB'', GetOrCreateSignal ''BTCUSD''], Inl DBError)"
  by (simp add: process_trade_intent_def sample_env_def sample_intent_def or_else_def Let_def)

lemma run_size_fails:
  "process_trade_intent (sample_env\<lparr>hermes := hermes_zero\<rparr>) sample_intent =
     ([EnsureTestUser ''TEST_USER_001'' ''0xLAB'', GetOrCreateSignal ''BTCUSD'',
       GetEquityForUser ''TEST_USER_001'', FetchPythPrice ''BTCUSD'',
       ComputePositionSize 10000 0.008 0 ''BTCUSD''],
      Inl InvalidSizing)"
  by (simp add: process_trade_intent_def sample_env_def sample_intent_def or_else_def
        get_equity_for_user_def Let_def fetch_pyth_price_def PYTH_FEEDS_def hermes_zero_def
        compute_position_size_def)

lemma run_dispatch_fails:
  "process_trade_intent (sample_env\<lparr>settle := settlement_bad_key\<rparr>) sample_intent =
     ([EnsureTestUser ''TEST_USER_001'' ''0xLAB'', GetOrCreateSignal ''BTCUSD'',
       GetEquityForUser ''TEST_USER_001'', FetchPythPrice ''BTCUSD'',
       ComputePositionSize 10000 0.008 65000 ''BTCUSD'',
       ExecuteOnchainTrade ''BTCUSD'' ''LONG'' sample_size],
      Inl (ValueError ''invalid private key''))"
  by (simp add: process_trade_intent_def sample_env_def sample_intent_def or_else_def
        get_equity_for_user_def Let_def
        fetch_pyth_price_def PYTH_FEEDS_def hermes_btc_def power_int_minus
        compute_position_size_def max_leverage_for_def asset_class_def
        default_config_def sample_size_def
        execute_onchain_trade_def get_web3_def settlement_bad_key_def truthy_def)

text \<open>
  Runs that fail at the tenant, signal, price (empty payload), sizing (price zero) and
  dispatch (rejected relayer key) steps, and the run that completes.
\<close>

theorem failure_aborts_remaining_steps_witness:
  "fetch_pyth_price hermes_empty ''BTCUSD'' = Inl (FeedNotFound ''BTCUSD'')
   \<and> process_trade_intent (sample_env\<lparr>hermes := hermes_empty\<rparr>) sample_intent =
       ([EnsureTestUser ''TEST_USER_001'' ''0xLAB'', GetOrCreateSignal ''BTCUSD'',
         GetEquityForUser ''TEST_USER_001'', FetchPythPrice ''BTCUSD''],
        Inl (FeedNotFound ''BTCUSD''))
   \<and> StepSize \<notin> set (map step_of (fst (process_trade_intent
         (sample_env\<lparr>hermes := hermes_empty\<rparr>) sample_intent)))
   \<and> StepDispatch \<notin> set (map step_of (fst (process_trade_intent
         (sample_env\<lparr>hermes := hermes_empty\<rparr>) sample_intent)))
   \<and> process_trade_intent (sample_env\<lparr>db_ensure_test_user := Some DBError\<rparr>) sample_intent =
       ([EnsureTestUser ''TEST_USER_001'' ''0xLAB''], Inl DBError)
   \<and> process_trade_intent (sample_env\<lparr>db_signal := Inl DBError\<rparr>) sample_intent =
       ([EnsureTestUser ''TEST_USER_001'' ''0xLAB'', GetOrCreateSignal ''BTCUSD''], Inl DBError)
   \<and> snd (process_trade_intent (sample_env\<lparr>hermes := hermes_zero\<rparr>) sample_intent)
       = Inl InvalidSizing
   \<and> StepDispatch \<notin> set (map step_of (fst (process_trade_intent
         (sample_env\<lparr>hermes := hermes_zero\<rparr>) sample_intent)))
   \<and> snd (process_trade_intent (sample_env\<lparr>settle := settlement_bad_key\<rparr>) sample_intent)
       = Inl (ValueError ''invalid private key'')
   \<and> from_key (settle (sample_env\<lparr>settle := settlement_bad_key\<rparr>))
       = Some (ValueError ''invalid private key'')
   \<and> map step_of (fst (process_trade_intent sample_env sample_intent)) = all_steps"
proof -
  have p: "fetch_pyth_price hermes_empty ''BTCUSD'' = Inl (FeedNotFound ''BTCUSD'')"
    by (simp add: fetch_pyth_price_def PYTH_FEEDS_def hermes_empty_def)
  have fk: "from_key (settle (sample_env\<lparr>settle := settlement_bad_key\<rparr>))
       = Some (ValueError ''invalid private key'')"
    by (simp add: settlement_bad_key_def)
  show ?thesis
    using failure_aborts_remaining_steps [of "sample_env\<lparr>hermes := hermes_empty\<rparr>" sample_intent]
          failure_aborts_remaining_steps [of "sample_env\<lparr>db_ensure_test_user := Some DBError\<rparr>" sample_intent]
          failure_aborts_remaining_steps [of "sample_env\<lparr>db_signal := Inl DBError\<rparr>" sample_intent]
          failure_aborts_remaining_steps [of "sample_env\<lparr>hermes := hermes_zero\<rparr>" sample_intent]
          failure_aborts_remaining_steps [of "sample_env\<lparr>settle := settlement_bad_key\<rparr>" sample_intent]
          failure_aborts_remaining_steps [of sample_env sample_intent]
    by (simp add: p fk run_price_fails run_tenant_fails run_signal_fails run_size_fails
          run_dispatch_fails sample_run all_steps_def)
qed

subsection \<open>Risk veto\<close>




subsection \<open>Ranker\<close>







subsection \<open>Scan pipeline\<close>



















subsection \<open>Reference scorer\<close>

lemma py_mod_range: "0 \<le> py_mod x 7 \<and> py_mod x 7 < 7"
proof -
  have "of_int \<lfloor>x / 7\<rfloor> \<le> x / 7" and "x / 7 < of_int \<lfloor>x / 7\<rfloor> + 1"
    by linarith+
  then show ?thesis
    by (simp add: py_mod_def field_simps)
qed

lemma score_price_bounds:
  "0.5 \<le> sig_p (score_price x) \<and> sig_p (score_price x) \<le> 0.99
   \<and> 0.6 \<le> sig_e (score_price x) \<and> sig_e (score_price x) \<le> 0.99
   \<and> sig_r (score_price x) = 0.9 \<and> sig_v (score_price x) = 0.9"
  using py_mod_range [of x] by (simp add: score_price_def Let_def min_def)

lemma score_price_product: "0.30 \<le> sig_p (score_price x) * sig_e (score_price x)"
proof -
  have "0.5 * 0.6 \<le> sig_p (score_price x) * sig_e (score_price x)"
    using score_price_bounds [of x] by (intro mult_mono) simp_all
  then show ?thesis by simp
qed

lemma fold_update_map_of:
  "map_of (fold (\<lambda>s out. AList.update s (g s) out) symbols acc) =
     (\<lambda>k. if k \<in> set symbols then Some (g k) else map_of acc k)"
  by (induction symbols arbitrary: acc) (auto simp add: update_conv' fun_eq_iff)

lemma fold_update_distinct:
  "distinct (map fst acc) \<Longrightarrow>
   distinct (map fst (fold (\<lambda>s out. AList.update s (g s) out) symbols acc))"
  by (induction symbols arbitrary: acc) (simp_all add: distinct_update)

lemma fold_update_keys:
  "fst ` set (fold (\<lambda>s out. AList.update s (g s) out) symbols acc) =
     fst ` set acc \<union> set symbols"
  by (induction symbols arbitrary: acc) (auto simp add: dom_update)

lemma fold_update_order:
  "distinct symbols \<Longrightarrow> set symbols \<inter> fst ` set acc = {} \<Longrightarrow>
   map fst (fold (\<lambda>s out. AList.update s (g s) out) symbols acc) = map fst acc @ symbols"
proof (induction symbols arbitrary: acc)
  case Nil
  then show ?case by simp
next
  case (Cons a symbols)
  have "set symbols \<inter> fst ` set (AList.update a (g a) acc) = {}"
    using Cons.prems by (auto simp add: dom_update)
  moreover have "map fst (AList.update a (g a) acc) = map fst acc @ [a]"
    using Cons.prems by (auto simp add: update_keys)
  ultimately show ?case
    using Cons.IH [of "AList.update a (g a) acc"] Cons.prems by simp
qed

text \<open>
  C10. The scorer returns one candidate for every symbol of its input, in the order of first
  occurrence, scored from the price of the symbol or from 1 when the price map has no entry
  for it; every candidate has \<open>0.5 \<le> p \<le> 0.99\<close>, \<open>0.6 \<le> e \<le> 0.99\<close>, hence \<open>p\<close> and \<open>e\<close>
  in \<open>[0, 1)\<close> and \<open>p \<times> e \<ge> 0.30\<close>, and \<open>r = v = 0.9\<close>.
\<close>

theorem scorer_total_bounded:
  "set (map fst (mock_coscienza_score symbols prices)) = set symbols
   \<and> distinct (map fst (mock_coscienza_score symbols prices))
   \<and> (distinct symbols \<longrightarrow> map fst (mock_coscienza_score symbols prices) = symbols)
   \<and> (\<forall>s \<in> set symbols.
        map_of (mock_coscienza_score symbols prices) s =
          Some (score_price (case prices s of None \<Rightarrow> 1 | Some x \<Rightarrow> x)))
   \<and> (\<forall>(s, c) \<in> set (mock_coscienza_score symbols prices).
        0.5 \<le> sig_p c \<and> sig_p c \<le> 0.99 \<and> 0.6 \<le> sig_e c \<and> sig_e c \<le> 0.99
        \<and> 0 \<le> sig_p c \<and> sig_p c < 1 \<and> 0 \<le> sig_e c \<and> sig_e c < 1
        \<and> 0.30 \<le> sig_p c * sig_e c \<and> sig_r c = 0.9 \<and> sig_v c = 0.9)"
proof -
  let ?g = "\<lambda>s. score_price (dict_get prices s 1)"
  let ?out = "mock_coscienza_score symbols prices"
  have out: "?out = fold (\<lambda>s out. AList.update s (?g s) out) symbols []"
    by (simp add: mock_coscienza_score_def)
  have keys: "set (map fst ?out) = set symbols"
    unfolding out by (simp add: fold_update_keys)
  have dist: "distinct (map fst ?out)"
    unfolding out by (rule fold_update_distinct) simp
  have ord: "distinct symbols \<longrightarrow> map fst ?out = symbols"
    unfolding out using fold_update_order [of symbols "[]" ?g] by simp
  have look: "map_of ?out s = Some (score_price (case prices s of None \<Rightarrow> 1 | Some x \<Rightarrow> x))"
    if "s \<in> set symbols" for s
    unfolding out using that by (simp add: fold_update_map_of dict_get_def)
  have bnd: "0.5 \<le> sig_p c \<and> sig_p c \<le> 0.99 \<and> 0.6 \<le> sig_e c \<and> sig_e c \<le> 0.99
        \<and> 0 \<le> sig_p c \<and> sig_p c < 1 \<and> 0 \<le> sig_e c \<and> sig_e c < 1
        \<and> 0.30 \<le> sig_p c * sig_e c \<and> sig_r c = 0.9 \<and> sig_v c = 0.9"
    if "(s, c) \<in> set ?out" for s c
  proof -
    have "map_of ?out s = Some c"
      using dist that by simp
    moreover have "s \<in> set symbols"
      using that keys by force
    ultimately have c: "c = score_price (case prices s of None \<Rightarrow> 1 | Some x \<Rightarrow> x)"
      using look [of s] by simp
    show ?thesis
      unfolding c
      using score_price_bounds [of "case prices s of None \<Rightarrow> 1 | Some x \<Rightarrow> x"]
        score_price_product [of "case prices s of None \<Rightarrow> 1 | Some x \<Rightarrow> x"]
      by simp
  qed
  show ?thesis
    using keys dist ord look bnd by blast
qed

theorem scorer_total_bounded_witness:
  "distinct [''USDJPY'', ''ZZZ''] \<and> sample_prices ''ZZZ'' = None
   \<and> mock_coscienza_score [''USDJPY'', ''ZZZ''] sample_prices =
       [(''USDJPY'', \<lparr>sig_p = 47 / 70, sig_e = 51 / 70, sig_r = 0.9, sig_v = 0.9\<rparr>),
        (''ZZZ'', \<lparr>sig_p = 39 / 70, sig_e = 45 / 70, sig_r = 0.9, sig_v = 0.9\<rparr>)]
   \<and> map fst (mock_coscienza_score [''USDJPY'', ''ZZZ''] sample_prices) = [''USDJPY'', ''ZZZ'']
   \<and> (0.5::real) \<le> 47 / 70 \<and> (47 / 70 :: real) \<le> 0.99"
proof -
  have m1: "py_mod 150 7 = 3" and m2: "py_mod 1 7 = 1"
    by (simp_all add: py_mod_def)
  have ev: "mock_coscienza_score [''USDJPY'', ''ZZZ''] sample_prices =
       [(''USDJPY'', \<lparr>sig_p = 47 / 70, sig_e = 51 / 70, sig_r = 0.9, sig_v = 0.9\<rparr>),
        (''ZZZ'', \<lparr>sig_p = 39 / 70, sig_e = 45 / 70, sig_r = 0.9, sig_v = 0.9\<rparr>)]"
    by (simp add: mock_coscienza_score_def sample_prices_def dict_get_def score_price_def
          Let_def m1 m2)
  have z: "sample_prices ''ZZZ'' = None"
    by (simp add: sample_prices_def)
  show ?thesis
    using scorer_total_bounded [of "[''USDJPY'', ''ZZZ'']" sample_prices]
    by (simp add: ev z)
qed

end
